theory Spec2Isabelle
  imports Complex_Main "HOL-Library.Word"
begin

unbundle bit_operations_syntax

section \<open>The Go engine of \<^verbatim>\<open>AlphaGoZero/go.py\<close>\<close>

text \<open>
  The class \<^verbatim>\<open>GameState\<close> keeps, for every board cell, a reference to a Python
  \<^verbatim>\<open>set\<close> holding the cell's group and a reference to a \<^verbatim>\<open>set\<close> holding the group's
  liberties. All the stones of one group refer to the same two set objects, and the code
  updates these objects in place (\<^verbatim>\<open>-=\<close>, \<^verbatim>\<open>|=\<close>, \<^verbatim>\<open>add\<close>). The embedding therefore
  has an explicit store of set objects: an address is what Python's \<^verbatim>\<open>id\<close> returns, a
  slot of \<^verbatim>\<open>group_sets\<close> or \<^verbatim>\<open>liberty_sets\<close> holds an address, and \<^verbatim>\<open>set()\<close>
  allocates a new address.

  The numpy arrays (\<^verbatim>\<open>board\<close>, \<^verbatim>\<open>liberty_counts\<close>, \<^verbatim>\<open>stone_ages\<close>) and the Python
  lists are owned by one state each (\<^verbatim>\<open>copy\<close> duplicates them with \<^verbatim>\<open>.copy()\<close>,
  \<^verbatim>\<open>list(...)\<close> and \<^verbatim>\<open>deepcopy\<close>), so they are values held in the state record. A
  two-dimensional array indexed by \<^verbatim>\<open>[x][y]\<close> is a function of the position; the code
  reads and writes it only at positions that passed \<^verbatim>\<open>_on_board\<close> or came out of
  \<^verbatim>\<open>_neighbors\<close>. The counters are Python or 64-bit numpy integers that only count
  moves and stones; they are unbounded integers here. The Zobrist hash is a
  \<^verbatim>\<open>uint64\<close>.
\<close>

type_synonym pos = "int \<times> int"
type_synonym action = "pos option"  \<comment> \<open>\<^verbatim>\<open>PASS_MOVE = None\<close>\<close>
type_synonym addr = nat

definition WHITE :: int where "WHITE = - 1"
definition BLACK :: int where "BLACK = 1"
definition EMPTY :: int where "EMPTY = 0"

datatype error = IllegalMove | KeyError | NameError

record heap =
  store :: "addr \<Rightarrow> pos set"
  next_id :: addr

record game_state =
  board :: "pos \<Rightarrow> int"
  size_n :: int
  current_player :: int
  ko :: "pos option"
  komi :: rat
  handicaps :: "action list"
  history :: "action list"
  board_history :: "(pos \<Rightarrow> int) list"
  num_black_prisoners :: int
  num_white_prisoners :: int
  is_end_of_game :: bool
  passes_white :: int
  passes_black :: int
  liberty_sets :: "pos \<Rightarrow> addr"
  liberty_counts :: "pos \<Rightarrow> int"
  group_sets :: "pos \<Rightarrow> addr"
  legal_move_cache :: "pos list option"
  legal_eyes_cache :: "pos list option"
  stone_ages :: "pos \<Rightarrow> int"
  enforce_superko :: bool
  hash_lookup :: "int \<Rightarrow> pos \<Rightarrow> 64 word"
  current_hash :: "64 word"
  previous_hashes :: "64 word set"

type_synonym world = "heap \<times> game_state"

subsection \<open>Positions and neighbours\<close>

definition on_board :: "int \<Rightarrow> pos \<Rightarrow> bool" where
  "on_board sz p = (case p of (x, y) \<Rightarrow> x \<ge> 0 \<and> y \<ge> 0 \<and> x < sz \<and> y < sz)"

text \<open>
  \<^verbatim>\<open>_create_neighbors_cache\<close> stores, for every position of the board, the list computed
  below; \<^verbatim>\<open>_neighbors\<close> looks it up (a \<^verbatim>\<open>KeyError\<close> for a position off the board,
  which no caller passes).
\<close>

definition neighbors :: "int \<Rightarrow> pos \<Rightarrow> pos list" where
  "neighbors sz p = (case p of (x, y) \<Rightarrow>
     filter (on_board sz) [(x - 1, y), (x + 1, y), (x, y - 1), (x, y + 1)])"

definition diagonals :: "int \<Rightarrow> pos \<Rightarrow> pos list" where
  "diagonals sz p = (case p of (x, y) \<Rightarrow>
     filter (on_board sz) [(x - 1, y - 1), (x + 1, y + 1), (x + 1, y - 1), (x - 1, y + 1)])"

text \<open>\<^verbatim>\<open>for x in range(size): for y in range(size)\<close>: the positions in row-major order.\<close>

definition all_positions :: "int \<Rightarrow> pos list" where
  "all_positions sz = concat (map (\<lambda>x. map (\<lambda>y. (x, y)) [0..sz - 1]) [0..sz - 1])"

text \<open>
  \<^verbatim>\<open>for (gx, gy) in some_set\<close>: Python fixes no iteration order for a set. The members
  are board positions; the model visits them in row-major order.
\<close>

definition elems :: "int \<Rightarrow> pos set \<Rightarrow> pos list" where
  "elems sz G = filter (\<lambda>p. p \<in> G) (all_positions sz)"

subsection \<open>The store of set objects\<close>

definition alloc :: "heap \<Rightarrow> pos set \<Rightarrow> heap \<times> addr" where
  "alloc h v = (h\<lparr>store := (store h)(next_id h := v), next_id := next_id h + 1\<rparr>, next_id h)"

definition put :: "heap \<Rightarrow> addr \<Rightarrow> pos set \<Rightarrow> heap" where
  "put h a v = h\<lparr>store := (store h)(a := v)\<rparr>"

text \<open>\<^verbatim>\<open>[[set(f(x, y)) for y in range(size)] for x in range(size)]\<close>\<close>

fun alloc_grid :: "pos list \<Rightarrow> (pos \<Rightarrow> pos set) \<Rightarrow> heap \<Rightarrow> (pos \<Rightarrow> addr) \<Rightarrow> heap \<times> (pos \<Rightarrow> addr)" where
  "alloc_grid [] f h g = (h, g)"
| "alloc_grid (p # ps) f h g = (case alloc h (f p) of (h', a) \<Rightarrow> alloc_grid ps f h' (g(p := a)))"

text \<open>\<^verbatim>\<open>for g in G: arr[g] = v\<close>\<close>

definition assign_all :: "pos list \<Rightarrow> 'a \<Rightarrow> (pos \<Rightarrow> 'a) \<Rightarrow> (pos \<Rightarrow> 'a)" where
  "assign_all gs v f = fold (\<lambda>g f'. f'(g := v)) gs f"

subsection \<open>\<^verbatim>\<open>__init__\<close>\<close>

text \<open>
  The table \<^verbatim>\<open>hash_lookup\<close> is drawn from \<^verbatim>\<open>np.random.RandomState(0)\<close>; its values are
  not part of the source, so the table is a parameter. It depends on the board size only.
  The slots of \<^verbatim>\<open>liberty_sets\<close> and \<^verbatim>\<open>group_sets\<close> exist for the positions of the
  board only; the functions below have an arbitrary address elsewhere.
\<close>

definition init :: "heap \<Rightarrow> int \<Rightarrow> rat \<Rightarrow> bool \<Rightarrow> int \<Rightarrow> (int \<Rightarrow> pos \<Rightarrow> 64 word) \<Rightarrow> world" where
  "init h sz km superko history_length tbl =
    (case alloc_grid (all_positions sz) (\<lambda>_. {}) h (\<lambda>_. 0) of (h1, ls0) \<Rightarrow>
     case alloc_grid (all_positions sz) (\<lambda>p. set (neighbors sz p)) h1 ls0 of (h2, ls) \<Rightarrow>
     case alloc_grid (all_positions sz) (\<lambda>_. {}) h2 (\<lambda>_. 0) of (h3, gs) \<Rightarrow>
       (h3, \<lparr>board = (\<lambda>_. EMPTY), size_n = sz, current_player = BLACK, ko = None, komi = km,
             handicaps = [], history = [],
             board_history = replicate (nat (history_length - 1)) (\<lambda>_. 0),
             num_black_prisoners = 0, num_white_prisoners = 0, is_end_of_game = False,
             passes_white = 0, passes_black = 0,
             liberty_sets = ls, liberty_counts = (\<lambda>_. - 1), group_sets = gs,
             legal_move_cache = None, legal_eyes_cache = None,
             stone_ages = (\<lambda>_. - 1), enforce_superko = superko, hash_lookup = tbl,
             current_hash = 0, previous_hashes = {}\<rparr>))"

subsection \<open>\<^verbatim>\<open>_update_neighbors\<close>\<close>

text \<open>
  One round of the loop over the neighbours of the stone just played. \<^verbatim>\<open>mg\<close> is the
  new set \<^verbatim>\<open>merged_group\<close>, \<^verbatim>\<open>ml\<close> is \<^verbatim>\<open>merged_libs\<close>: not a new set but the very
  object that the slot of \<^verbatim>\<open>position\<close> refers to.
\<close>

fun update_neighbors_step :: "pos \<Rightarrow> addr \<Rightarrow> addr \<Rightarrow> pos \<Rightarrow> world \<Rightarrow> world" where
  "update_neighbors_step position mg ml n (h, s) =
    (let la = liberty_sets s n;
         h1 = put h la (store h la - {position})
     in if board s n = - current_player s then
          let new_liberty_count = int (card (store h1 la))
          in (h1, s\<lparr>liberty_counts :=
                assign_all (elems (size_n s) (store h1 (group_sets s n))) new_liberty_count
                  (liberty_counts s)\<rparr>)
        else if board s position = board s n then
          let h2 = put h1 mg (store h1 mg \<union> store h1 (group_sets s n));
              h3 = put h2 ml (store h2 ml \<union> store h2 la)
          in (h3, s)
        else (h1, s))"

fun update_neighbors :: "pos \<Rightarrow> world \<Rightarrow> world" where
  "update_neighbors position (h, s) =
    (case alloc h {position} of (h0, mg) \<Rightarrow>
     let ml = liberty_sets s position
     in case fold (update_neighbors_step position mg ml) (neighbors (size_n s) position) (h0, s) of
       (h1, s1) \<Rightarrow>
         let count_merged_libs = int (card (store h1 ml));
             merged_group = elems (size_n s1) (store h1 mg)
         in (h1, s1\<lparr>group_sets := assign_all merged_group mg (group_sets s1),
                    liberty_sets := assign_all merged_group ml (liberty_sets s1),
                    liberty_counts := assign_all merged_group count_merged_libs (liberty_counts s1)\<rparr>))"

subsection \<open>\<^verbatim>\<open>_update_hash\<close> and \<^verbatim>\<open>_remove_group\<close>\<close>

definition update_hash :: "pos \<Rightarrow> int \<Rightarrow> game_state \<Rightarrow> game_state" where
  "update_hash a color s = s\<lparr>current_hash := current_hash s XOR hash_lookup s color a\<rparr>"

text \<open>First loop of \<^verbatim>\<open>_remove_group\<close>: hash the stone out, empty the cell.\<close>

definition remove_stone :: "pos \<Rightarrow> game_state \<Rightarrow> game_state" where
  "remove_stone p s = (let s1 = update_hash p (board s p) s in s1\<lparr>board := (board s1)(p := EMPTY)\<rparr>)"

text \<open>Second loop, the inner loop over the neighbours \<^verbatim>\<open>n\<close> of the removed cell \<^verbatim>\<open>p\<close>.\<close>

fun remove_group_nb :: "pos \<Rightarrow> pos \<Rightarrow> world \<Rightarrow> world" where
  "remove_group_nb p n (h, s) =
    (if board s n = EMPTY then
       (put h (liberty_sets s p) (insert n (store h (liberty_sets s p))), s)
     else
       let h1 = put h (liberty_sets s n) (insert p (store h (liberty_sets s n)))
       in (h1, s\<lparr>liberty_counts :=
             assign_all (elems (size_n s) (store h1 (group_sets s n)))
               (int (card (store h1 (liberty_sets s n)))) (liberty_counts s)\<rparr>))"

fun remove_group_cell :: "pos \<Rightarrow> world \<Rightarrow> world" where
  "remove_group_cell p (h, s) =
    (case alloc h {} of (h1, ga) \<Rightarrow>
     case alloc h1 {} of (h2, la) \<Rightarrow>
       fold (remove_group_nb p) (neighbors (size_n s) p)
         (h2, s\<lparr>group_sets := (group_sets s)(p := ga),
                liberty_sets := (liberty_sets s)(p := la),
                liberty_counts := (liberty_counts s)(p := - 1),
                stone_ages := (stone_ages s)(p := - 1)\<rparr>))"

text \<open>
  The argument is the set object of the captured group. No statement of the two loops
  changes that object, so the loops run over its members as they are on entry.
\<close>

fun remove_group :: "pos set \<Rightarrow> world \<Rightarrow> world" where
  "remove_group G (h, s) =
    (let s1 = fold remove_stone (elems (size_n s) G) s
     in fold remove_group_cell (elems (size_n s) G) (h, s1))"

subsection \<open>\<^verbatim>\<open>copy\<close>\<close>

text \<open>
  \<^verbatim>\<open>get_copy\<close> keeps a dictionary from the \<^verbatim>\<open>id\<close> of a set of the original to its
  copy, shared by all its calls within one \<^verbatim>\<open>copy()\<close> (the dictionary is the default
  argument of a function defined anew by each call of \<^verbatim>\<open>copy\<close>).
\<close>

fun get_copy :: "addr \<Rightarrow> heap \<times> (addr \<rightharpoonup> addr) \<Rightarrow> (heap \<times> (addr \<rightharpoonup> addr)) \<times> addr" where
  "get_copy a (h, set_copies) =
    (case set_copies a of
       Some b \<Rightarrow> ((h, set_copies), b)
     | None \<Rightarrow> (case alloc h (store h a) of (h', b) \<Rightarrow> ((h', set_copies(a \<mapsto> b)), b)))"

fun copy_cell :: "game_state \<Rightarrow> pos \<Rightarrow> (heap \<times> (addr \<rightharpoonup> addr)) \<times> game_state
    \<Rightarrow> (heap \<times> (addr \<rightharpoonup> addr)) \<times> game_state" where
  "copy_cell self p (hm, other) =
    (case get_copy (group_sets self p) hm of (hm1, g) \<Rightarrow>
     case get_copy (liberty_sets self p) hm1 of (hm2, l) \<Rightarrow>
       (hm2, other\<lparr>group_sets := (group_sets other)(p := g),
                   liberty_sets := (liberty_sets other)(p := l)\<rparr>))"

text \<open>
  \<^verbatim>\<open>GameState(self.size, self.komi)\<close> runs \<^verbatim>\<open>__init__\<close> with the default
  \<^verbatim>\<open>enforce_superko=False\<close> and \<^verbatim>\<open>history_length=8\<close>; it draws the hash table again from
  the same seed and the same size, which gives the table of \<^verbatim>\<open>self\<close>. The fields that
  \<^verbatim>\<open>copy\<close> does not assign keep the values \<^verbatim>\<open>__init__\<close> gave them.
\<close>

fun copy :: "world \<Rightarrow> world" where
  "copy (h, s) =
    (case init h (size_n s) (komi s) False 8 (hash_lookup s) of (h0, other0) \<Rightarrow>
     let other1 = other0\<lparr>board := board s,
                         current_player := current_player s,
                         ko := ko s,
                         handicaps := handicaps s,
                         history := history s,
                         board_history := board_history s,
                         num_black_prisoners := num_black_prisoners s,
                         num_white_prisoners := num_white_prisoners s,
                         enforce_superko := enforce_superko s,
                         current_hash := current_hash s,
                         previous_hashes := previous_hashes s\<rparr>
     in case fold (copy_cell s) (all_positions (size_n s)) ((h0, Map.empty), other1) of
       ((h1, m), other2) \<Rightarrow> (h1, other2\<lparr>liberty_counts := liberty_counts s\<rparr>))"

subsection \<open>\<^verbatim>\<open>is_suicide\<close>\<close>

fun is_suicide_loop :: "heap \<Rightarrow> game_state \<Rightarrow> pos \<Rightarrow> pos list \<Rightarrow> bool" where
  "is_suicide_loop h s a [] = True"
| "is_suicide_loop h s a (n # ns) =
    (let is_friendly_group = (board s n = current_player s);
         group_has_other_liberties = (card (store h (liberty_sets s n) - {a}) > 0);
         is_enemy_group = (board s n = - current_player s)
     in if is_friendly_group \<and> group_has_other_liberties then False
        else if is_enemy_group \<and> \<not> group_has_other_liberties then False
        else is_suicide_loop h s a ns)"

definition is_suicide :: "heap \<Rightarrow> game_state \<Rightarrow> pos \<Rightarrow> bool" where
  "is_suicide h s a =
    (let num_liberties_here = card (store h (liberty_sets s a))
     in if num_liberties_here = 0 then is_suicide_loop h s a (neighbors (size_n s) a)
        else False)"

subsection \<open>\<^verbatim>\<open>do_move\<close>, \<^verbatim>\<open>is_legal\<close> and \<^verbatim>\<open>is_positional_superko\<close>\<close>

text \<open>The loop of \<^verbatim>\<open>do_move\<close> over the neighbours of the stone played: captures and ko.\<close>

fun capture_step :: "pos \<Rightarrow> int \<Rightarrow> pos \<Rightarrow> world \<Rightarrow> world" where
  "capture_step position color n (h, s) =
    (if board s n = - color \<and> card (store h (liberty_sets s n)) = 0 then
       let captured_group = store h (group_sets s n);
           num_captured = int (card captured_group)
       in case remove_group captured_group (h, s) of (h1, s1) \<Rightarrow>
         let s2 = (if color = BLACK
                   then s1\<lparr>num_white_prisoners := num_white_prisoners s1 + num_captured\<rparr>
                   else s1\<lparr>num_black_prisoners := num_black_prisoners s1 + num_captured\<rparr>)
         in if num_captured = 1 then
              let would_recapture = (card (store h1 (liberty_sets s2 position)) = 1);
                  recapture_size_is_1 = (card (store h1 (group_sets s2 position)) = 1)
              in if would_recapture \<and> recapture_size_is_1 then (h1, s2\<lparr>ko := Some n\<rparr>)
                 else (h1, s2)
            else (h1, s2)
     else (h, s))"

text \<open>
  \<^verbatim>\<open>self.stone_ages[self.stone_ages >= 0] += 1\<close>: numpy adds one, in place, to every
  cell of the array that holds a value \<^verbatim>\<open>>= 0\<close>.
\<close>

definition age_stones :: "pos list \<Rightarrow> (pos \<Rightarrow> int) \<Rightarrow> (pos \<Rightarrow> int)" where
  "age_stones ps ages = fold (\<lambda>p f. if f p \<ge> 0 then f(p := f p + 1) else f) ps ages"

text \<open>
  The branch of \<^verbatim>\<open>do_move\<close> taken when \<^verbatim>\<open>is_legal\<close> returned \<^verbatim>\<open>True\<close>, up to
  \<^verbatim>\<open>self.__legal_move_cache = None\<close>. \<^verbatim>\<open>self.hash_lookup\<close> is a dictionary with the keys
  \<^verbatim>\<open>WHITE\<close> and \<^verbatim>\<open>BLACK\<close>: with another colour \<^verbatim>\<open>_update_hash\<close> raises
  \<^verbatim>\<open>KeyError\<close>, after the stone was written to the board.
\<close>

definition next_turn :: "action \<Rightarrow> int \<Rightarrow> game_state \<Rightarrow> game_state" where
  "next_turn a color s =
     s\<lparr>current_player := - color, history := history s @ [a], legal_move_cache := None\<rparr>"

fun apply_move :: "world \<Rightarrow> action \<Rightarrow> int \<Rightarrow> world \<times> (error + unit)" where
  "apply_move (h, s) a color =
    (let s1 = s\<lparr>ko := None,
                stone_ages := age_stones (all_positions (size_n s)) (stone_ages s),
                board_history := tl (board_history s @ [board s])\<rparr>
     in case a of
       None \<Rightarrow>
         let s2 = (if color = BLACK then s1\<lparr>passes_black := passes_black s1 + 1\<rparr> else s1);
             s3 = (if color = WHITE then s2\<lparr>passes_white := passes_white s2 + 1\<rparr> else s2)
         in ((h, next_turn a color s3), Inr ())
     | Some position \<Rightarrow>
         let s2 = s1\<lparr>board := (board s1)(position := color)\<rparr>
         in if color \<noteq> WHITE \<and> color \<noteq> BLACK then ((h, s2), Inl KeyError)
            else
              (case update_neighbors position (h, update_hash position color s2) of (h4, s4) \<Rightarrow>
               let s5 = s4\<lparr>stone_ages := (stone_ages s4)(position := 0)\<rparr>
               in (case fold (capture_step position color) (neighbors (size_n s5) position) (h4, s5) of
                 (h6, s6) \<Rightarrow>
                   let s7 = s6\<lparr>previous_hashes := insert (current_hash s6) (previous_hashes s6)\<rparr>
                   in ((h6, next_turn a color s7), Inr ()))))"

text \<open>\<^verbatim>\<open># Check for end of game\<close>\<close>

definition check_end :: "game_state \<Rightarrow> game_state" where
  "check_end s =
    (if length (history s) > 1
        \<and> last (history s) = None \<and> history s ! (length (history s) - 2) = None
        \<and> current_player s = WHITE
     then s\<lparr>is_end_of_game := True\<rparr> else s)"

text \<open>
  \<^verbatim>\<open>do_move\<close> calls \<^verbatim>\<open>is_legal\<close>, which calls \<^verbatim>\<open>is_positional_superko\<close> when
  \<^verbatim>\<open>enforce_superko\<close> is set, which calls \<^verbatim>\<open>do_move\<close> on a copy whose
  \<^verbatim>\<open>enforce_superko\<close> is \<^verbatim>\<open>False\<close>. The inner \<^verbatim>\<open>do_move\<close> never reaches
  \<^verbatim>\<open>is_positional_superko\<close>, so the recursion has depth one. The embedding writes
  \<^verbatim>\<open>is_legal\<close> and \<^verbatim>\<open>do_move\<close> once, with the superko test as an argument, and
  instantiates them twice: \<open>is_legal0\<close> and \<open>do_move0\<close> for the inner call, where the argument
  is never used, then \<open>is_legal\<close> and \<open>do_move\<close>. An exception raised inside
  \<^verbatim>\<open>is_legal\<close> leaves \<^verbatim>\<open>do_move\<close> before \<^verbatim>\<open>current_player\<close> is restored.
  The message carried by \<^verbatim>\<open>IllegalMove\<close> is not modelled.
\<close>

fun is_legal_gen :: "(world \<Rightarrow> action \<Rightarrow> heap \<times> (error + bool)) \<Rightarrow> world \<Rightarrow> action
    \<Rightarrow> heap \<times> (error + bool)" where
  "is_legal_gen superko (h, s) None = (h, Inr True)"
| "is_legal_gen superko (h, s) (Some p) =
    (if \<not> on_board (size_n s) p then (h, Inr False)
     else if board s p \<noteq> EMPTY then (h, Inr False)
     else if is_suicide h s p then (h, Inr False)
     else if Some p = ko s then (h, Inr False)
     else if enforce_superko s then
       (case superko (h, s) (Some p) of
          (h', Inl e) \<Rightarrow> (h', Inl e)
        | (h', Inr b) \<Rightarrow> (h', Inr (\<not> b)))
     else (h, Inr True))"

text \<open>\<^verbatim>\<open>color = color or self.current_player\<close>: \<^verbatim>\<open>None\<close> and \<^verbatim>\<open>0\<close> are false.\<close>

definition color_or :: "int option \<Rightarrow> int \<Rightarrow> int" where
  "color_or color_arg player =
    (case color_arg of None \<Rightarrow> player | Some c \<Rightarrow> if c = 0 then player else c)"

fun do_move_gen :: "(world \<Rightarrow> action \<Rightarrow> heap \<times> (error + bool)) \<Rightarrow> world \<Rightarrow> action
    \<Rightarrow> int option \<Rightarrow> world \<times> (error + bool)" where
  "do_move_gen legal (h, s) a color_arg =
    (let color = color_or color_arg (current_player s);
         reset_player = current_player s;
         s0 = s\<lparr>current_player := color\<rparr>
     in case legal (h, s0) a of
          (h1, Inl e) \<Rightarrow> ((h1, s0), Inl e)
        | (h1, Inr False) \<Rightarrow> ((h1, s0\<lparr>current_player := reset_player\<rparr>), Inl IllegalMove)
        | (h1, Inr True) \<Rightarrow>
            (case apply_move (h1, s0) a color of
               (w2, Inl e) \<Rightarrow> (w2, Inl e)
             | ((h2, s2), Inr _) \<Rightarrow>
                 let s3 = check_end s2 in ((h2, s3), Inr (is_end_of_game s3))))"

definition is_legal0 :: "world \<Rightarrow> action \<Rightarrow> heap \<times> (error + bool)" where
  "is_legal0 = is_legal_gen (\<lambda>w a. (fst w, Inr False))"

definition do_move0 :: "world \<Rightarrow> action \<Rightarrow> int option \<Rightarrow> world \<times> (error + bool)" where
  "do_move0 = do_move_gen is_legal0"

text \<open>\<^verbatim>\<open>history[0::2]\<close> and \<^verbatim>\<open>history[1::2]\<close>\<close>

fun evens :: "'a list \<Rightarrow> 'a list" where
  "evens [] = []"
| "evens [x] = [x]"
| "evens (x # y # zs) = x # evens zs"

fun odds :: "'a list \<Rightarrow> 'a list" where
  "odds [] = []"
| "odds (x # xs) = evens xs"

fun is_positional_superko :: "world \<Rightarrow> action \<Rightarrow> heap \<times> (error + bool)" where
  "is_positional_superko (h, s) a =
    (let player_history =
           (if length (handicaps s) = 0 \<and> current_player s = BLACK then evens (history s)
            else if length (handicaps s) > 0 \<and> current_player s = WHITE then evens (history s)
            else odds (history s))
     in if a \<notin> set (handicaps s) \<and> a \<notin> set player_history then (h, Inr False)
        else
          (case copy (h, s) of (h1, state_copy) \<Rightarrow>
           (case do_move0 (h1, state_copy\<lparr>enforce_superko := False\<rparr>) a None of
              ((h2, state_copy'), Inl e) \<Rightarrow> (h2, Inl e)
            | ((h2, state_copy'), Inr _) \<Rightarrow>
                if current_hash state_copy' \<in> previous_hashes s then (h2, Inr True)
                else (h2, Inr False))))"

definition is_legal :: "world \<Rightarrow> action \<Rightarrow> heap \<times> (error + bool)" where
  "is_legal = is_legal_gen is_positional_superko"

definition do_move :: "world \<Rightarrow> action \<Rightarrow> int option \<Rightarrow> world \<times> (error + bool)" where
  "do_move = do_move_gen is_legal"

subsection \<open>\<^verbatim>\<open>place_handicaps\<close>\<close>

fun place_loop :: "world \<Rightarrow> action list \<Rightarrow> world \<times> (error + unit)" where
  "place_loop w [] = (w, Inr ())"
| "place_loop w (a # as) =
    (case do_move w a (Some BLACK) of
       (w', Inl e) \<Rightarrow> (w', Inl e)
     | (w', Inr _) \<Rightarrow> place_loop w' as)"

text \<open>
  The last statement of \<^verbatim>\<open>place_handicaps\<close> reads \<^verbatim>\<open>history_length\<close> and \<^verbatim>\<open>size\<close>,
  names bound neither in the method nor in the module: evaluating
  \<^verbatim>\<open>range(history_length - 1)\<close> raises \<^verbatim>\<open>NameError\<close>, after \<^verbatim>\<open>self.history = []\<close>.
\<close>

fun place_handicaps :: "world \<Rightarrow> action list \<Rightarrow> world \<times> (error + unit)" where
  "place_handicaps (h, s) actions =
    (if length (history s) > 0 then ((h, s), Inl IllegalMove)
     else
       case place_loop (h, s\<lparr>handicaps := handicaps s @ actions\<rparr>) actions of
         (w', Inl e) \<Rightarrow> (w', Inl e)
       | ((h', s'), Inr _) \<Rightarrow> ((h', s'\<lparr>history := []\<rparr>), Inl NameError))"

subsection \<open>\<^verbatim>\<open>is_eyeish\<close> and \<^verbatim>\<open>get_winner\<close>\<close>

definition is_eyeish :: "game_state \<Rightarrow> pos \<Rightarrow> int \<Rightarrow> bool" where
  "is_eyeish s p owner =
    (if board s p \<noteq> EMPTY then False
     else list_all (\<lambda>n. board s n = owner) (neighbors (size_n s) p))"

text \<open>
  \<^verbatim>\<open>komi\<close> is a Python float (7.5 by default); the scores are sums of a komi and small
  integers, taken here as exact rationals.
\<close>

definition get_winner :: "game_state \<Rightarrow> int" where
  "get_winner s =
    (let ps = all_positions (size_n s);
         stones_white = int (length (filter (\<lambda>p. board s p = WHITE) ps));
         stones_black = int (length (filter (\<lambda>p. board s p = BLACK) ps));
         empties = filter (\<lambda>p. board s p = EMPTY) ps;
         eyes_black = int (length (filter (\<lambda>p. is_eyeish s p BLACK) empties));
         eyes_white = int (length (filter (\<lambda>p. \<not> is_eyeish s p BLACK \<and> is_eyeish s p WHITE) empties));
         score_white = of_int (stones_white + eyes_white) + komi s - of_int (passes_white s);
         score_black = (of_int (stones_black + eyes_black - passes_black s) :: rat)
     in if score_black > score_white then BLACK
        else if score_white > score_black then WHITE
        else 0)"

subsection \<open>Reachable states\<close>

text \<open>
  A state of a game: \<^verbatim>\<open>GameState(size, komi, enforce_superko, history_length)\<close>,
  constructed over any store, followed by calls of \<^verbatim>\<open>do_move\<close> that return (that is,
  legal moves), each with the colour left out or given as \<^verbatim>\<open>BLACK\<close> or \<^verbatim>\<open>WHITE\<close>.
\<close>

definition player_arg :: "int option \<Rightarrow> bool" where
  "player_arg c = (c = None \<or> c = Some BLACK \<or> c = Some WHITE)"

fun play :: "world \<Rightarrow> (action \<times> int option) list \<Rightarrow> world option" where
  "play w [] = Some w"
| "play w ((a, c) # ms) =
    (if player_arg c then
       (case do_move w a c of
          (w', Inr _) \<Rightarrow> play w' ms
        | (w', Inl e) \<Rightarrow> None)
     else None)"

definition reachable :: "world \<Rightarrow> bool" where
  "reachable w = (\<exists>h0 sz km superko hl tbl ms. play (init h0 sz km superko hl tbl) ms = Some w)"

subsection \<open>Fields that the group and liberty bookkeeping never writes\<close>

definition fixed_fields :: "game_state \<Rightarrow> _" where
  "fixed_fields s = (size_n s, current_player s, komi s, handicaps s, history s, board_history s,
     is_end_of_game s, passes_white s, passes_black s, legal_move_cache s, legal_eyes_cache s,
     enforce_superko s, hash_lookup s, previous_hashes s)"

subsection \<open>Example games\<close>

text \<open>
  Concrete games to evaluate the engine on: an empty store, a fixed hash table, boards of
  size 2 and 3.
\<close>

definition heap0 :: heap where
  "heap0 = \<lparr>store = (\<lambda>_. {}), next_id = 0\<rparr>"

definition table0 :: "int \<Rightarrow> pos \<Rightarrow> 64 word" where
  "table0 c p = (case p of (x, y) \<Rightarrow> word_of_int (c + 3 * x + 7 * y))"

definition start2 :: world where
  "start2 = init heap0 2 0 False 8 table0"

definition start3 :: world where
  "start3 = init heap0 3 (15 / 2) False 8 table0"

text \<open>Black passes, white passes, black passes, then white plays a stone.\<close>

definition pass1 :: world where
  "pass1 = fst (do_move start2 None None)"

definition pass2 :: world where
  "pass2 = fst (do_move pass1 None None)"

definition pass3 :: world where
  "pass3 = fst (do_move pass2 None None)"

definition pass3_stone :: world where
  "pass3_stone = fst (do_move pass3 (Some (0, 0)) None)"

text \<open>
  On the 3 by 3 board black surrounds the white stones at (1, 0) and (0, 1) and then
  captures both of them with one stone at (0, 0).
\<close>

definition double_capture_moves :: "(action \<times> int option) list" where
  "double_capture_moves = [(Some (1, 1), None), (Some (1, 0), None), (Some (2, 0), None),
     (Some (0, 1), None), (Some (0, 2), None), (None, None), (Some (0, 0), None)]"

section \<open>Verification\<close>

declare update_neighbors_step.simps [simp del]
declare update_neighbors.simps [simp del]
declare remove_group_nb.simps [simp del]
declare remove_group_cell.simps [simp del]
declare remove_group.simps [simp del]
declare capture_step.simps [simp del]
declare apply_move.simps [simp del]
declare is_legal_gen.simps [simp del]
declare do_move_gen.simps [simp del]
declare is_positional_superko.simps [simp del]
declare copy.simps [simp del]
declare copy_cell.simps [simp del]
declare get_copy.simps [simp del]
declare place_handicaps.simps [simp del]

subsection \<open>Fields left alone by the helpers\<close>

lemma fold_keeps:
  assumes "\<And>x w. P (f x w) = P w"
  shows "P (fold f xs w) = P w"
  using assms by (induction xs arbitrary: w) auto

lemma fixed_update_neighbors_step:
  "fixed_fields (snd (update_neighbors_step p mg ml n w)) = fixed_fields (snd w)"
  by (cases w) (simp add: update_neighbors_step.simps fixed_fields_def Let_def)

lemma fixed_update_neighbors:
  "fixed_fields (snd (update_neighbors p w)) = fixed_fields (snd w)"
proof (cases w)
  case (Pair h s)
  have "fixed_fields (snd (fold (update_neighbors_step p mg ml) ns w0)) = fixed_fields (snd w0)"
    for mg ml ns w0
    by (rule fold_keeps [where P = "\<lambda>w. fixed_fields (snd w)"]) (rule fixed_update_neighbors_step)
  then show ?thesis
    unfolding Pair
    by (auto simp: update_neighbors.simps Let_def fixed_fields_def split: prod.splits
        dest!: arg_cong [where f = snd])
qed

lemma fixed_remove_stone: "fixed_fields (remove_stone p s) = fixed_fields s"
  by (simp add: remove_stone_def update_hash_def fixed_fields_def Let_def)

lemma fixed_remove_group_nb: "fixed_fields (snd (remove_group_nb p n w)) = fixed_fields (snd w)"
  by (cases w) (simp add: remove_group_nb.simps fixed_fields_def Let_def)

lemma fixed_remove_group_cell: "fixed_fields (snd (remove_group_cell p w)) = fixed_fields (snd w)"
proof (cases w)
  case (Pair h s)
  show ?thesis
    unfolding Pair
    by (simp add: remove_group_cell.simps alloc_def
        fold_keeps [where P = "\<lambda>w. fixed_fields (snd w)"] fixed_remove_group_nb)
      (simp add: fixed_fields_def)
qed

lemma fixed_remove_group: "fixed_fields (snd (remove_group G w)) = fixed_fields (snd w)"
proof (cases w)
  case (Pair h s)
  show ?thesis
    unfolding Pair
    by (simp add: remove_group.simps Let_def
        fold_keeps [where P = "\<lambda>w. fixed_fields (snd w)"] fixed_remove_group_cell
        fold_keeps [where P = fixed_fields] fixed_remove_stone)
qed

lemma fixed_capture_step: "fixed_fields (snd (capture_step p c n w)) = fixed_fields (snd w)"
proof (cases w)
  case (Pair h s)
  obtain h1 s1 where r: "remove_group (store h (group_sets s n)) (h, s) = (h1, s1)"
    by (cases "remove_group (store h (group_sets s n)) (h, s)")
  have "fixed_fields s1 = fixed_fields s"
    using fixed_remove_group [of "store h (group_sets s n)" "(h, s)"] by (simp add: r)
  then show ?thesis
    unfolding Pair by (simp add: capture_step.simps r Let_def) (simp add: fixed_fields_def)
qed

lemma fixed_capture_loop:
  "fixed_fields (snd (fold (capture_step p c) ns w)) = fixed_fields (snd w)"
  by (rule fold_keeps [where P = "\<lambda>w. fixed_fields (snd w)"]) (rule fixed_capture_step)

lemma apply_move_basic:
  assumes "apply_move (h, s) a color = ((h', s'), Inr u)"
  shows "history s' = history s @ [a]" "current_player s' = - color"
    "is_end_of_game s' = is_end_of_game s" "size_n s' = size_n s"
    "enforce_superko s' = enforce_superko s" "hash_lookup s' = hash_lookup s"
    "komi s' = komi s" "handicaps s' = handicaps s"
proof -
  have "fixed_fields (s'\<lparr>current_player := current_player s, history := history s,
      legal_move_cache := legal_move_cache s, board_history := board_history s,
      passes_white := passes_white s, passes_black := passes_black s,
      previous_hashes := previous_hashes s\<rparr>) = fixed_fields s
      \<and> history s' = history s @ [a] \<and> current_player s' = - color"
  proof (cases a)
    case None
    with assms show ?thesis
      by (cases "color = BLACK"; cases "color = WHITE")
        (auto simp: apply_move.simps Let_def next_turn_def fixed_fields_def)
  next
    case (Some p)
    let ?s1 = "s\<lparr>ko := None, stone_ages := age_stones (all_positions (size_n s)) (stone_ages s),
                board_history := tl (board_history s @ [board s])\<rparr>"
    let ?s2 = "?s1\<lparr>board := (board ?s1)(p := color)\<rparr>"
    obtain h4 s4 where u: "update_neighbors p (h, update_hash p color ?s2) = (h4, s4)"
      by (cases "update_neighbors p (h, update_hash p color ?s2)")
    let ?s5 = "s4\<lparr>stone_ages := (stone_ages s4)(p := 0)\<rparr>"
    obtain h6 s6 where c: "fold (capture_step p color) (neighbors (size_n ?s5) p) (h4, ?s5) = (h6, s6)"
      by (cases "fold (capture_step p color) (neighbors (size_n ?s5) p) (h4, ?s5)")
    have f4: "fixed_fields s4 = fixed_fields (update_hash p color ?s2)"
      using fixed_update_neighbors [of p "(h, update_hash p color ?s2)"] unfolding u by simp
    have f6: "fixed_fields s6 = fixed_fields ?s5"
      using fixed_capture_loop [of p color "neighbors (size_n ?s5) p" "(h4, ?s5)"]
      unfolding c by simp
    have s': "s' = next_turn a color
        (s6\<lparr>previous_hashes := insert (current_hash s6) (previous_hashes s6)\<rparr>)"
      using assms Some u c by (simp add: apply_move.simps Let_def split: if_splits)
    from f4 f6 show ?thesis
      unfolding s' by (simp add: next_turn_def fixed_fields_def update_hash_def)
  qed
  then show "history s' = history s @ [a]" "current_player s' = - color"
    "is_end_of_game s' = is_end_of_game s" "size_n s' = size_n s"
    "enforce_superko s' = enforce_superko s" "hash_lookup s' = hash_lookup s"
    "komi s' = komi s" "handicaps s' = handicaps s"
    by (simp_all add: fixed_fields_def)
qed

lemma do_move_gen_Inr:
  assumes "do_move_gen legal (h, s) a c = ((h', s'), Inr r)"
  obtains h1 s2 u where
    "legal (h, s\<lparr>current_player := color_or c (current_player s)\<rparr>) a = (h1, Inr True)"
    and "apply_move (h1, s\<lparr>current_player := color_or c (current_player s)\<rparr>) a
          (color_or c (current_player s)) = ((h', s2), Inr u)"
    and "s' = check_end s2" and "r = is_end_of_game s'"
  using assms
  by (auto simp: do_move_gen.simps Let_def split: prod.splits sum.splits bool.splits)

subsection \<open>End of the game\<close>

text \<open>
  Claim C8, as the code has it. After a successful \<^verbatim>\<open>do_move\<close> the action is the last
  entry of the history, the player to move is the opposite of the colour played, the
  value returned is the end-of-game flag, and the flag is set if and only if it was set
  before the move, or the two most recent history entries are both passes and it is now
  white's turn to move. The flag is never cleared; and since the player to move is the
  opposite of the colour played, the second of the two passes is the one played as black.
\<close>

theorem do_move_end_of_game:
  assumes "do_move (h, s) a c = ((h', s'), Inr r)"
  shows "history s' = history s @ [a] \<and> current_player s' = - color_or c (current_player s)
    \<and> r = is_end_of_game s'
    \<and> is_end_of_game s' =
        (is_end_of_game s \<or>
         (length (history s') > 1 \<and> last (history s') = None
          \<and> history s' ! (length (history s') - 2) = None \<and> current_player s' = WHITE))"
proof -
  from assms obtain h1 s2 u where
    ap: "apply_move (h1, s\<lparr>current_player := color_or c (current_player s)\<rparr>) a
          (color_or c (current_player s)) = ((h', s2), Inr u)"
    and s': "s' = check_end s2" and r: "r = is_end_of_game s'"
    unfolding do_move_def by (rule do_move_gen_Inr)
  note b = apply_move_basic [OF ap]
  show ?thesis
    using b(1,2,3) r unfolding s' by (auto simp: check_end_def)
qed

text \<open>
  The theorem at the third pass of a game of three passes: black's second pass sets the
  flag, which was not set before.
\<close>

theorem do_move_end_of_game_witness:
  "snd (do_move pass2 None None) = Inr True \<and> \<not> is_end_of_game (snd pass2)
    \<and> is_end_of_game (snd pass3) \<and> history (snd pass3) = [None, None, None]
    \<and> current_player (snd pass3) = WHITE"
proof -
  have r: "snd (do_move pass2 None None) = Inr True"
    by code_simp
  have e: "do_move (fst pass2, snd pass2) None None = ((fst pass3, snd pass3), Inr True)"
    using r by (simp add: pass3_def prod_eq_iff)
  have f: "history (snd pass2) = [None, None]" "\<not> is_end_of_game (snd pass2)"
    "current_player (snd pass2) = BLACK"
    by code_simp+
  from do_move_end_of_game [OF e] f show ?thesis
    by (simp add: r color_or_def WHITE_def BLACK_def)
qed

text \<open>
  Claim C8 as stated fails twice. After black passed and then white passed, in a new game,
  the two most recent entries are passes but it is black's turn, and the game has not
  ended. And after the game has ended with a third pass, a stone played by white leaves
  the flag set although the last entry of the history is not a pass.
\<close>

theorem do_move_end_of_game_counterexample:
  "snd (do_move start2 None None) = Inr False \<and> snd (do_move pass1 None None) = Inr False
    \<and> history (snd pass2) = [None, None] \<and> \<not> is_end_of_game (snd pass2)
    \<and> snd (do_move pass3 (Some (0, 0)) None) = Inr True
    \<and> is_end_of_game (snd pass3_stone)
    \<and> history (snd pass3_stone) = [None, None, None, Some (0, 0)]"
  by code_simp

subsection \<open>Handicap stones\<close>

lemma place_handicaps_never_returns: "snd (place_handicaps w actions) \<noteq> Inr u"
  by (cases w) (auto simp: place_handicaps.simps split: prod.splits sum.splits)

text \<open>
  Claim C9 does not hold of the code: \<^verbatim>\<open>place_handicaps\<close> never returns. On a new
  board of size 2, with the two handicap stones (0, 0) and (1, 1), it raises
  \<^verbatim>\<open>NameError\<close> after it has placed the stones and emptied the move history, and the
  board snapshots are not reset: the last one shows the first handicap stone.
\<close>

theorem place_handicaps_raises:
  "snd (place_handicaps start2 [Some (0, 0), Some (1, 1)]) = Inl NameError
    \<and> board (snd (fst (place_handicaps start2 [Some (0, 0), Some (1, 1)]))) (0, 0) = BLACK
    \<and> history (snd (fst (place_handicaps start2 [Some (0, 0), Some (1, 1)]))) = []
    \<and> last (board_history (snd (fst (place_handicaps start2 [Some (0, 0), Some (1, 1)])))) (0, 0)
        = BLACK"
  by code_simp

subsection \<open>What \<^verbatim>\<open>copy\<close> leaves out\<close>

text \<open>
  Claim C4 does not hold of the code: \<^verbatim>\<open>copy\<close> assigns neither the pass counters, nor
  the end-of-game flag, nor the stone ages. After one pass of black, with komi 0, the
  original counts one pass and white wins, the copy counts none and the game is a draw;
  after three passes the original has ended and the copy has not; a stone of age 0 has age
  \<open>-1\<close> in the copy.
\<close>

theorem copy_drops_fields:
  "passes_black (snd pass1) = 1 \<and> passes_black (snd (copy pass1)) = 0
    \<and> get_winner (snd pass1) = WHITE \<and> get_winner (snd (copy pass1)) = 0
    \<and> is_end_of_game (snd pass3) \<and> \<not> is_end_of_game (snd (copy pass3))
    \<and> stone_ages (snd pass3_stone) (0, 0) = 0 \<and> stone_ages (snd (copy pass3_stone)) (0, 0) = - 1"
  by code_simp

subsection \<open>The ko point after two captures\<close>

text \<open>
  Claim C6 does not hold of the code: the ko test runs inside the loop over the captured
  neighbours and its result is never withdrawn. In the game \<open>double_capture_moves\<close> the
  last stone captures two single stones; after the first capture the new stone has one
  liberty, so the ko point is set to (1, 0), and it stays set although the move captured
  two stones and the capturing stone ends with two liberties.
\<close>

theorem ko_after_double_capture:
  "(case play start3 double_capture_moves of None \<Rightarrow> False | Some (h, s) \<Rightarrow>
      ko s = Some (1, 0) \<and> num_white_prisoners s = 2
      \<and> card (store h (liberty_sets s (0, 0))) = 2 \<and> card (store h (group_sets s (0, 0))) = 1
      \<and> board s (1, 0) = EMPTY \<and> board s (0, 1) = EMPTY)"
  by code_simp

end
